theory Spec2Isabelle
  imports Complex_Main "HOL-Library.Sublist"
begin

section \<open>JavaScript values used by the editor\<close>

text \<open>
  A JavaScript string is a \<open>string\<close>; a property that may be \<open>undefined\<close> or
  \<open>null\<close> is a \<open>string option\<close>. The expression \<open>v || d\<close> yields \<open>v\<close> when
  \<open>v\<close> is truthy (a non-empty string) and \<open>d\<close> otherwise.
\<close>

definition js_truthy :: "string option \<Rightarrow> bool" where
  "js_truthy v = (case v of None \<Rightarrow> False | Some s \<Rightarrow> s \<noteq> [])"

definition js_or :: "string option \<Rightarrow> string \<Rightarrow> string" where
  "js_or v d = (case v of None \<Rightarrow> d | Some s \<Rightarrow> if s \<noteq> [] then s else d)"

text \<open>\<open>String.prototype.includes\<close>: the pattern occurs as a contiguous substring.\<close>

fun str_includes :: "string \<Rightarrow> string \<Rightarrow> bool" where
  "str_includes [] pat = (pat = [])"
| "str_includes (c # cs) pat = (prefix pat (c # cs) \<or> str_includes cs pat)"

text \<open>A number inside a template literal: its decimal digits.\<close>

definition digit_char :: "nat \<Rightarrow> char" where
  "digit_char d = ''0123456789'' ! (d mod 10)"

fun show_nat :: "nat \<Rightarrow> string" where
  "show_nat n = (if n < 10 then [digit_char n] else show_nat (n div 10) @ [digit_char (n mod 10)])"

declare show_nat.simps [simp del]

section \<open>Data model of the template editor\<close>

record scene =
  scene_id :: nat
  name :: string
  duration :: real
  prompt :: string
  emotion :: string
  camera_movement :: string
  lighting :: string
  reference_images :: "string list"
  dialogue :: "string option"
  voice_gender :: "string option"

record subject =
  subject_type :: string
  subject_description :: string

record product =
  product_name :: string
  category :: string
  key_features :: "string list"

record brand_guidelines =
  mood :: string
  color_palette :: "string list"
  style :: string

record template =
  template_name :: string
  description :: string
  duration_target :: real
  subject :: subject
  product :: product
  brand_guidelines :: brand_guidelines
  scenes :: "scene list"

record tracked_element =
  element_type :: string
  element_description :: string

text \<open>The analysis object the frame analyzer returns (\<open>result.analysis\<close>).\<close>

record frame_analysis =
  subject_position :: "string option"
  camera_angle :: "string option"
  analysis_lighting :: "string option"
  analysis_mood :: "string option"
  colors :: "string list option"
  video_prompt :: "string option"
  next_scene_suggestion :: "string option"
  tracked_elements :: "tracked_element list option"

text \<open>The state \<open>useState\<close> gives \<open>TemplateEditor\<close> its first render.\<close>

definition initial_template :: template where
  "initial_template =
     \<lparr>template_name = [], description = [], duration_target = 30,
      subject = \<lparr>subject_type = [], subject_description = []\<rparr>,
      product = \<lparr>product_name = [], category = [], key_features = []\<rparr>,
      brand_guidelines = \<lparr>mood = [], color_palette = [], style = []\<rparr>,
      scenes = []\<rparr>"

section \<open>Scene list operations of \<open>TemplateEditor\<close>\<close>

definition addScene :: "template \<Rightarrow> template" where
  "addScene t =
     (let newScene =
        \<lparr>scene_id = length (scenes t),
         name = ''Scene '' @ show_nat (length (scenes t) + 1),
         duration = 7.5,
         prompt = [],
         emotion = ''neutral'',
         camera_movement = ''static'',
         lighting = ''natural'',
         reference_images = [],
         dialogue = None,
         voice_gender = None\<rparr>
      in t\<lparr>scenes := scenes t @ [newScene]\<rparr>)"

text \<open>
  \<open>removeScene\<close> filters on the position, then renumbers every remaining scene in
  place (\<open>forEach\<close>): \<open>scene_id\<close> becomes the new position and \<open>name\<close> is reset.
\<close>

definition renumber :: "scene list \<Rightarrow> scene list" where
  "renumber newScenes =
     map (\<lambda>(i, scene). scene\<lparr>scene_id := i, name := ''Scene '' @ show_nat (i + 1)\<rparr>)
       (enumerate 0 newScenes)"

definition removeScene :: "nat \<Rightarrow> template \<Rightarrow> template" where
  "removeScene index t =
     (let newScenes = map snd (filter (\<lambda>(i, _). i \<noteq> index) (enumerate 0 (scenes t)))
      in t\<lparr>scenes := renumber newScenes\<rparr>)"

text \<open>
  \<open>updateScene(index, field, value)\<close> is called from the inputs of a scene card, with
  one of eight field names. The card is rendered from \<open>template.scenes.map\<close>, so the
  index is that of an existing scene; for a larger index JavaScript would extend the
  array with an object that has the one field only, which the \<open>scene\<close> record cannot
  hold, and the model returns \<open>None\<close> there.
\<close>

datatype scene_field =
    Name string
  | Duration real
  | Prompt string
  | Dialogue string
  | VoiceGender string
  | Emotion string
  | CameraMovement string
  | Lighting string

fun set_field :: "scene_field \<Rightarrow> scene \<Rightarrow> scene" where
  "set_field (Name v) s = s\<lparr>name := v\<rparr>"
| "set_field (Duration v) s = s\<lparr>duration := v\<rparr>"
| "set_field (Prompt v) s = s\<lparr>prompt := v\<rparr>"
| "set_field (Dialogue v) s = s\<lparr>dialogue := Some v\<rparr>"
| "set_field (VoiceGender v) s = s\<lparr>voice_gender := Some v\<rparr>"
| "set_field (Emotion v) s = s\<lparr>emotion := v\<rparr>"
| "set_field (CameraMovement v) s = s\<lparr>camera_movement := v\<rparr>"
| "set_field (Lighting v) s = s\<lparr>lighting := v\<rparr>"

definition updateScene :: "nat \<Rightarrow> scene_field \<Rightarrow> template \<Rightarrow> template option" where
  "updateScene index fv t =
     (if index < length (scenes t)
      then Some (t\<lparr>scenes := (scenes t)[index := set_field fv (scenes t ! index)]\<rparr>)
      else None)"

section \<open>State of \<open>TemplateEditor\<close>\<close>

text \<open>The optimizer's \<open>result.optimized\<close> object; each key may be missing.\<close>

record optimized =
  action :: "string option"
  optimized_action :: "string option"
  opt_emotion :: "string option"
  optimized_emotion :: "string option"
  opt_dialogue :: "string option"
  added_keywords :: "string list option"

record validation_report =
  confidence_score :: "real option"
  validation_notes :: "string option"
  validation_issues :: "string list option"

record original =
  original_action :: string
  original_emotion :: string

record optimization_preview =
  sceneIndex :: nat
  original :: original
  preview_optimized :: optimized
  preview_validation :: "validation_report option"
  optimizedData :: optimized

record editor =
  template :: template
  imageAnalysis :: "nat \<rightharpoonup> frame_analysis"
  optimizationPreview :: "optimization_preview option"
  optimizingScene :: "nat option"
  loading :: bool

definition initial_editor :: editor where
  "initial_editor =
     \<lparr>template = initial_template, imageAnalysis = Map.empty,
      optimizationPreview = None, optimizingScene = None, loading = False\<rparr>"

section \<open>Routing a frame analysis into the scene\<close>

text \<open>
  The \<open>onAnalysisComplete\<close> callback \<open>TemplateEditor\<close> hands to the uploader of the
  scene card at \<open>index\<close>. \<open>scene\<close>, \<open>index\<close> and \<open>updateScene\<close> are those of the
  render that created the callback, so \<open>scene\<close> is \<open>template.scenes[index]\<close> of the
  template the update is applied to. The analysis is stored under the scene's index
  first; then the first scene takes \<open>video_prompt\<close> as its whole prompt, and a later
  scene gets \<open>next_scene_suggestion\<close> put in front of its prompt, unless the prompt
  includes the text \<open>[CONTINUITY]\<close>.
\<close>

definition onAnalysisComplete :: "nat \<Rightarrow> frame_analysis \<Rightarrow> editor \<Rightarrow> editor option" where
  "onAnalysisComplete index analysis e =
     (if index < length (scenes (template e)) then
        (let scene = scenes (template e) ! index;
             e1 = e\<lparr>imageAnalysis := (imageAnalysis e)(index \<mapsto> analysis)\<rparr>
         in if index = 0 then
              (let videoPrompt = js_or (video_prompt analysis) []
               in if videoPrompt \<noteq> []
                  then map_option (\<lambda>t. e1\<lparr>template := t\<rparr>)
                         (updateScene index (Prompt videoPrompt) (template e))
                  else Some e1)
            else
              (let continuityContext = js_or (next_scene_suggestion analysis) [];
                   currentPrompt = js_or (Some (prompt scene)) []
               in if continuityContext \<noteq> [] \<and> \<not> str_includes currentPrompt ''[CONTINUITY]''
                  then map_option (\<lambda>t. e1\<lparr>template := t\<rparr>)
                         (updateScene index
                            (Prompt (''[CONTINUITY: '' @ continuityContext @ ''] '' @ currentPrompt))
                            (template e))
                  else Some e1))
      else None)"

section \<open>\<open>FrameUploader\<close>\<close>

record uploader =
  isDragging :: bool
  isAnalyzing :: bool
  preview :: "string option"
  analysis :: "frame_analysis option"
  error :: "string option"

text \<open>
  What \<open>await fetch(...)\<close> followed by \<open>response.json()\<close> gives: either an
  exception with its message, or the parsed body.
\<close>

datatype 'r fetched = Threw string | Responded 'r

record analyze_result =
  ok :: bool
  result_analysis :: frame_analysis
  result_error :: "string option"

text \<open>
  \<open>analyzeFrame\<close>, on the uploader's own state \<open>u\<close> and the parent's state \<open>p\<close>
  that the optional callback \<open>onAnalysisComplete\<close> works on. The third component
  lists the analyses the callback was invoked with. The \<open>finally\<close> block clears
  \<open>isAnalyzing\<close> on every path. Where the callback has no result in the model
  (\<open>None\<close>, see \<open>updateScene\<close>), neither has \<open>analyzeFrame\<close>.
\<close>

definition analyzeFrame ::
  "(frame_analysis \<Rightarrow> 'p \<Rightarrow> 'p option) option \<Rightarrow> analyze_result fetched \<Rightarrow>
   uploader \<times> 'p \<Rightarrow> (uploader \<times> 'p \<times> frame_analysis list) option" where
  "analyzeFrame onComplete outcome st =
     (let u = fst st; p = snd st;
          u1 = u\<lparr>isAnalyzing := True, error := None\<rparr>
      in case outcome of
           Threw message \<Rightarrow>
             Some (u1\<lparr>error := Some (''Error: '' @ message), isAnalyzing := False\<rparr>, p, [])
         | Responded result \<Rightarrow>
             if ok result then
               (let u2 = u1\<lparr>analysis := Some (result_analysis result)\<rparr>
                in case onComplete of
                     None \<Rightarrow> Some (u2\<lparr>isAnalyzing := False\<rparr>, p, [])
                   | Some callback \<Rightarrow>
                       map_option
                         (\<lambda>p'. (u2\<lparr>isAnalyzing := False\<rparr>, p', [result_analysis result]))
                         (callback (result_analysis result) p))
             else
               Some (u1\<lparr>error := Some (js_or (result_error result) ''Analysis failed''),
                        isAnalyzing := False\<rparr>, p, []))"

text \<open>The two ways an analysis fails: the request throws, or the response is not ok.\<close>

definition analysis_failed :: "analyze_result fetched \<Rightarrow> bool" where
  "analysis_failed outcome = (case outcome of Threw _ \<Rightarrow> True | Responded result \<Rightarrow> \<not> ok result)"

text \<open>
  The suggestion block of the analysis panel: \<open>video_prompt\<close> for the first scene,
  \<open>next_scene_suggestion\<close> for the others, each under its label.
\<close>

definition suggestion_items :: "bool \<Rightarrow> frame_analysis \<Rightarrow> (string \<times> string) list" where
  "suggestion_items isFirstScene a =
     (if isFirstScene \<and> js_truthy (video_prompt a)
      then [(''Prompt Generado'', js_or (video_prompt a) [])] else [])
     @ (if \<not> isFirstScene \<and> js_truthy (next_scene_suggestion a)
        then [(''Sugerencia Siguiente Escena'', js_or (next_scene_suggestion a) [])] else [])"

section \<open>Prompt optimization in \<open>TemplateEditor\<close>\<close>

record optimization_request =
  request_action :: string
  request_emotion :: string
  request_dialogue :: string
  request_voice_gender :: string
  product_tone :: string
  scene_type :: string
  image_context :: "frame_analysis option"

text \<open>
  The request \<open>handleOptimize\<close> builds before it calls \<open>optimizePrompt\<close>. Reading
  \<open>scene.prompt\<close> of a scene that does not exist throws inside the \<open>try\<close> block:
  no request is built.
\<close>

definition optimizationRequest :: "editor \<Rightarrow> nat \<Rightarrow> optimization_request option" where
  "optimizationRequest e index =
     (if index < length (scenes (template e)) then
        (let scene = scenes (template e) ! index;
             request =
               \<lparr>request_action = js_or (Some (prompt scene)) [],
                request_emotion = js_or (Some (emotion scene)) ''neutral'',
                request_dialogue = js_or (dialogue scene) [],
                request_voice_gender = js_or (voice_gender scene) ''female'',
                product_tone = js_or (Some (mood (brand_guidelines (template e)))) ''professional'',
                scene_type = ''general'',
                image_context = None\<rparr>
         in Some (if index = 0 \<and> imageAnalysis e 0 \<noteq> None
                  then request\<lparr>image_context := imageAnalysis e 0\<rparr>
                  else request))
      else None)"

record optimize_result =
  optimize_ok :: bool
  result_optimized :: optimized
  result_validation :: "validation_report option"
  optimize_error :: "string option"

datatype optimize_alert = OptimizeRejected "string option" | OptimizeThrew string | SceneMissing

text \<open>
  \<open>handleOptimize\<close>: the new editor state, the requests sent to the optimizer and the
  alert shown, if any. The \<open>TypeError\<close> on a missing scene is caught like a failed
  request and alerted (\<open>SceneMissing\<close>).
\<close>

definition handleOptimize ::
  "nat \<Rightarrow> optimize_result fetched \<Rightarrow> editor \<Rightarrow>
   editor \<times> optimization_request list \<times> optimize_alert option" where
  "handleOptimize index outcome e =
     (let e1 = e\<lparr>optimizingScene := Some index, loading := True\<rparr>
      in case optimizationRequest e index of
           None \<Rightarrow> (e1\<lparr>loading := False\<rparr>, [], Some SceneMissing)
         | Some request \<Rightarrow>
             (case outcome of
                Threw message \<Rightarrow> (e1\<lparr>loading := False\<rparr>, [request], Some (OptimizeThrew message))
              | Responded result \<Rightarrow>
                  if optimize_ok result then
                    (let scene = scenes (template e) ! index
                     in (e1\<lparr>optimizationPreview :=
                              Some \<lparr>sceneIndex = index,
                                    original =
                                      \<lparr>original_action = js_or (Some (prompt scene)) ''Sin prompt'',
                                       original_emotion = js_or (Some (emotion scene)) ''neutral''\<rparr>,
                                    preview_optimized = result_optimized result,
                                    preview_validation = result_validation result,
                                    optimizedData = result_optimized result\<rparr>,
                            loading := False\<rparr>,
                         [request], None))
                  else (e1\<lparr>loading := False\<rparr>, [request],
                        Some (OptimizeRejected (optimize_error result)))))"

text \<open>
  \<open>applyOptimization\<close>, the preview's accept action. The preview is rendered inside the
  card of scene \<open>sceneIndex\<close>, so that scene exists when the action runs; for a larger
  index the array would be extended with a partial object (\<open>None\<close> here, as in
  \<open>updateScene\<close>).
\<close>

definition applyOptimization :: "editor \<Rightarrow> editor option" where
  "applyOptimization e =
     (case optimizationPreview e of
        None \<Rightarrow> Some e
      | Some pv \<Rightarrow>
          (let newScenes = scenes (template e); i = sceneIndex pv; data = optimizedData pv
           in if i < length newScenes then
                Some (e\<lparr>template := (template e)\<lparr>scenes := newScenes[i := (newScenes ! i)
                           \<lparr>prompt := js_or (action data)
                                        (js_or (optimized_action data) (prompt (newScenes ! i))),
                            emotion := js_or (opt_emotion data)
                                         (js_or (optimized_emotion data) (emotion (newScenes ! i)))\<rparr>]\<rparr>,
                         optimizationPreview := None,
                         optimizingScene := None\<rparr>)
              else None))"

definition rejectOptimization :: "editor \<Rightarrow> editor" where
  "rejectOptimization e = e\<lparr>optimizationPreview := None, optimizingScene := None\<rparr>"

section \<open>Submitting a project and starting production\<close>

datatype submit_alert = CompleteNameAndScenes | ProjectCreated | CreateFailed string

record submit_result =
  alert :: submit_alert
  created :: "(template \<times> bool) list"
  navigated :: "string option"

text \<open>
  \<open>handleSubmit\<close>: the alert shown, the \<open>createProject(template, true)\<close> calls made
  and the route navigated to. The parameter is the outcome of \<open>createProject\<close>,
  should it be called.
\<close>

definition handleSubmit :: "template \<Rightarrow> unit fetched \<Rightarrow> submit_result" where
  "handleSubmit t outcome =
     (if template_name t = [] \<or> length (scenes t) = 0 then
        \<lparr>alert = CompleteNameAndScenes, created = [], navigated = None\<rparr>
      else
        (case outcome of
           Responded _ \<Rightarrow> \<lparr>alert = ProjectCreated, created = [(t, True)], navigated = Some ''/''\<rparr>
         | Threw message \<Rightarrow> \<lparr>alert = CreateFailed message, created = [(t, True)], navigated = None\<rparr>))"

text \<open>
  A project as the dashboard receives it from \<open>getProjects\<close>; \<open>final_video\<close> is
  an object when present (its path is kept here).
\<close>

record project =
  project_id :: string
  project_name :: string
  status :: string
  project_scenes :: "scene list option"
  final_video :: "string option"

datatype dashboard_action = StartProduction | Download | View | Delete

text \<open>The buttons of a project card, in the order \<open>Dashboard\<close> renders them.\<close>

definition project_actions :: "project \<Rightarrow> dashboard_action list" where
  "project_actions p =
     (if status p = ''draft'' then [StartProduction] else [])
     @ (if status p = ''completed'' \<and> final_video p \<noteq> None then [Download] else [])
     @ [View, Delete]"

datatype produce_error = InvalidProjectState

definition scene_count :: "project \<Rightarrow> nat" where
  "scene_count p = (case project_scenes p of None \<Rightarrow> 0 | Some ss \<Rightarrow> length ss)"

text \<open>
  Modelled from the spec: the precondition of \<open>produce(project, autoMode)\<close>. The
  orchestrator runs in the backend, whose code is not among the sources; the dashboard
  only posts to \<open>/api/production/start\<close>. The spec (4.2): "Precondition:
  project.status == DRAFT and project has >= 1 scene; otherwise fails with
  InvalidProjectState. Sets project.status = IN_PROGRESS immediately". The statuses are
  the strings the dashboard reads: draft, in_progress, completed, failed.
\<close>

definition produce_start :: "project \<Rightarrow> produce_error + project" where
  "produce_start p =
     (if status p = ''draft'' \<and> 1 \<le> scene_count p
      then Inr (p\<lparr>status := ''in_progress''\<rparr>)
      else Inl InvalidProjectState)"

section \<open>The \<open>ContinuityValidator\<close> component\<close>

record warning =
  severity :: string
  element :: string
  message :: string

record validation =
  is_valid :: bool
  warnings :: "warning list option"
  suggestions :: "string list option"

record validator =
  validator_validation :: "validation option"
  validator_loading :: bool

record validate_request =
  url :: string
  http_method :: string
  previous_elements :: "tracked_element list"
  current_elements :: "tracked_element list"

text \<open>
  \<open>validateContinuity\<close>: with both element lists present it posts them to the
  continuity service and stores the parsed response as the validation shown; a request
  that throws is logged and leaves the validation as it was. The second component
  lists the requests sent.
\<close>

definition validateContinuity ::
  "tracked_element list option \<Rightarrow> tracked_element list option \<Rightarrow> validation fetched \<Rightarrow>
   validator \<Rightarrow> validator \<times> validate_request list" where
  "validateContinuity previousElements currentElements outcome v =
     (case (previousElements, currentElements) of
        (Some previous, Some current) \<Rightarrow>
          (let v1 = v\<lparr>validator_loading := True\<rparr>;
               request = \<lparr>url = ''http://localhost:8003/api/continuity/validate'',
                          http_method = ''POST'',
                          previous_elements = previous,
                          current_elements = current\<rparr>
           in case outcome of
                Responded result \<Rightarrow>
                  (v1\<lparr>validator_validation := Some result, validator_loading := False\<rparr>, [request])
              | Threw err \<Rightarrow> (v1\<lparr>validator_loading := False\<rparr>, [request]))
      | _ \<Rightarrow> (v, []))"

section \<open>The continuity validation rule\<close>

text \<open>
  The comparison the continuity service computes is not among the sources (the
  component above only posts to it); this section follows the spec (4.3): "for each
  tracked element type present in the previous scene's set, look for a corresponding
  element in the current scene's set by matching type. Missing correspondence =>
  HIGH-severity warning (element absent in current scene). Present but description
  drifts significantly (implementation-defined textual similarity threshold) =>
  MEDIUM-severity warning. Otherwise no warning for that element. isValid is true iff no
  HIGH-severity warning exists. Suggestions are free-text remediation hints generated
  alongside warnings (e.g., reintroduce element X with consistent description)".
\<close>

datatype level = HIGH | MEDIUM | LOW

record continuity_warning =
  warning_level :: level
  warning_element :: string
  warning_message :: string

record continuity_report =
  isValid :: bool
  report_warnings :: "continuity_warning list"
  report_suggestions :: "string list"

text \<open>
  Modelled from the spec: "look for a corresponding element ... by matching type", the
  lookup the missing continuity service does in an element list (the first element of
  the type).
\<close>

definition element_of_type :: "string \<Rightarrow> tracked_element list \<Rightarrow> tracked_element option" where
  "element_of_type t es = find (\<lambda>e. element_type e = t) es"

text \<open>
  Modelled from the spec: the missing service's verdict on one element type of the
  previous list. No corresponding element gives a HIGH warning; a corresponding element
  whose description drifts gives a MEDIUM warning; otherwise there is no warning. The
  implementation-defined similarity test is the parameter \<open>drifts\<close>.
\<close>

definition compare_type ::
  "(string \<Rightarrow> string \<Rightarrow> bool) \<Rightarrow> tracked_element list \<Rightarrow> tracked_element list \<Rightarrow>
   string \<Rightarrow> continuity_warning list" where
  "compare_type drifts previous current t =
     (case element_of_type t previous of
        None \<Rightarrow> []
      | Some p \<Rightarrow>
          (case element_of_type t current of
             None \<Rightarrow>
               [\<lparr>warning_level = HIGH, warning_element = t,
                 warning_message = ''element absent in current scene''\<rparr>]
           | Some c \<Rightarrow>
               if drifts (element_description p) (element_description c)
               then [\<lparr>warning_level = MEDIUM, warning_element = t,
                      warning_message = ''description drifts''\<rparr>]
               else []))"

text \<open>
  Modelled from the spec: the missing service's warnings, "for each tracked element type
  present in the previous scene's set", each type taken once.
\<close>

definition continuity_warnings ::
  "(string \<Rightarrow> string \<Rightarrow> bool) \<Rightarrow> tracked_element list \<Rightarrow> tracked_element list \<Rightarrow>
   continuity_warning list" where
  "continuity_warnings drifts previous current =
     concat (map (compare_type drifts previous current) (remdups (map element_type previous)))"

text \<open>
  Modelled from the spec: the missing service's report. "isValid is true iff no
  HIGH-severity warning exists"; one remediation hint is generated with each warning.
\<close>

definition validate_continuity ::
  "(string \<Rightarrow> string \<Rightarrow> bool) \<Rightarrow> tracked_element list \<Rightarrow> tracked_element list \<Rightarrow>
   continuity_report" where
  "validate_continuity drifts previous current =
     (let ws = continuity_warnings drifts previous current
      in \<lparr>isValid = (filter (\<lambda>w. warning_level w = HIGH) ws = []),
          report_warnings = ws,
          report_suggestions =
            map (\<lambda>w. ''reintroduce element '' @ warning_element w @ '' with consistent description'')
              ws\<rparr>)"

section \<open>Sequences of scene operations\<close>

text \<open>
  The two buttons that change the number of scenes, and the property of a template
  that every scene's \<open>scene_id\<close> is its position in the list.
\<close>

datatype scene_op = AddScene | RemoveScene nat

fun apply_scene_op :: "template \<Rightarrow> scene_op \<Rightarrow> template" where
  "apply_scene_op t AddScene = addScene t"
| "apply_scene_op t (RemoveScene index) = removeScene index t"

definition ordinals_contiguous :: "template \<Rightarrow> bool" where
  "ordinals_contiguous t = (map scene_id (scenes t) = [0..<length (scenes t)])"

section \<open>Example states\<close>

definition no_analysis :: frame_analysis where
  "no_analysis =
     \<lparr>subject_position = None, camera_angle = None, analysis_lighting = None,
      analysis_mood = None, colors = None, video_prompt = None,
      next_scene_suggestion = None, tracked_elements = None\<rparr>"

definition product_analysis :: frame_analysis where
  "product_analysis =
     no_analysis\<lparr>video_prompt := Some ''woman with four perfume bottles'',
                 next_scene_suggestion := Some ''start on the table''\<rparr>"

definition continuity_analysis :: frame_analysis where
  "continuity_analysis =
     no_analysis\<lparr>video_prompt := Some ''a bottle'',
                 next_scene_suggestion := Some ''bottle in hand''\<rparr>"

definition demo_template :: template where
  "demo_template =
     (addScene (addScene initial_template))
       \<lparr>template_name := ''Perfume'',
        scenes := map (\<lambda>s. s\<lparr>prompt := ''she sprays the perfume''\<rparr>)
                    (scenes (addScene (addScene initial_template)))\<rparr>"

definition demo_editor :: editor where
  "demo_editor = initial_editor\<lparr>template := demo_template\<rparr>"

definition analysed_editor :: editor where
  "analysed_editor =
     demo_editor\<lparr>imageAnalysis := [0 \<mapsto> product_analysis, 1 \<mapsto> continuity_analysis]\<rparr>"

definition idle_uploader :: uploader where
  "idle_uploader =
     \<lparr>isDragging = False, isAnalyzing = False, preview = None, analysis = None, error = None\<rparr>"

definition failed_analysis :: analyze_result where
  "failed_analysis =
     \<lparr>ok = False, result_analysis = continuity_analysis, result_error = Some ''quota exceeded''\<rparr>"

definition optimizer_reply :: optimize_result where
  "optimizer_reply =
     \<lparr>optimize_ok = True,
      result_optimized =
        \<lparr>action = Some ''she sprays the perfume, slow dolly in'', optimized_action = None,
         opt_emotion = Some ''luxury'', optimized_emotion = None,
         opt_dialogue = Some ''Este es el aroma'', added_keywords = None\<rparr>,
      result_validation = None,
      optimize_error = None\<rparr>"

definition empty_reply :: optimize_result where
  "empty_reply =
     \<lparr>optimize_ok = True,
      result_optimized =
        \<lparr>action = None, optimized_action = Some [],
         opt_emotion = None, optimized_emotion = None,
         opt_dialogue = Some ''Este es el aroma'', added_keywords = None\<rparr>,
      result_validation = None,
      optimize_error = None\<rparr>"

definition bottle :: tracked_element where
  "bottle = \<lparr>element_type = ''bottle'', element_description = ''black perfume bottle in hand''\<rparr>"

definition idle_validator :: validator where
  "idle_validator = \<lparr>validator_validation = None, validator_loading = False\<rparr>"

definition service_accepts :: validation where
  "service_accepts = \<lparr>is_valid = True, warnings = Some [], suggestions = Some []\<rparr>"

definition service_warns :: validation where
  "service_warns =
     \<lparr>is_valid = False,
      warnings = Some [\<lparr>severity = ''high'', element = ''bottle'', message = ''missing''\<rparr>],
      suggestions = Some []\<rparr>"

definition draft_project :: project where
  "draft_project =
     \<lparr>project_id = ''p1'', project_name = ''Perfume'', status = ''draft'',
      project_scenes = Some (scenes demo_template), final_video = None\<rparr>"

definition accepted_preview :: optimization_preview where
  "accepted_preview =
     \<lparr>sceneIndex = 1,
      original = \<lparr>original_action = ''she sprays the perfume'', original_emotion = ''neutral''\<rparr>,
      preview_optimized = result_optimized optimizer_reply,
      preview_validation = None,
      optimizedData = result_optimized optimizer_reply\<rparr>"

definition retained_preview :: optimization_preview where
  "retained_preview =
     \<lparr>sceneIndex = 1,
      original = \<lparr>original_action = ''she sprays the perfume'', original_emotion = ''neutral''\<rparr>,
      preview_optimized = result_optimized empty_reply,
      preview_validation = None,
      optimizedData = result_optimized empty_reply\<rparr>"

section \<open>Helper lemmas\<close>

lemma str_includes_sublist: "str_includes s pat = sublist pat s"
  by (induction s) (auto simp: sublist_Cons_right)

lemma onAnalysisComplete_first:
  assumes "0 < length (scenes (template e))"
  shows "onAnalysisComplete 0 a e =
           Some (e\<lparr>imageAnalysis := (imageAnalysis e)(0 \<mapsto> a),
                   template := (template e)\<lparr>scenes :=
                     (if js_truthy (video_prompt a)
                      then (scenes (template e))[0 := (scenes (template e) ! 0)\<lparr>prompt := js_or (video_prompt a) []\<rparr>]
                      else scenes (template e))\<rparr>\<rparr>)"
  using assms
  by (auto simp: onAnalysisComplete_def updateScene_def js_or_def js_truthy_def Let_def
      split: option.splits)

lemma onAnalysisComplete_later:
  assumes "index < length (scenes (template e))" and "0 < index"
  shows "onAnalysisComplete index a e =
           Some (e\<lparr>imageAnalysis := (imageAnalysis e)(index \<mapsto> a),
                   template := (template e)\<lparr>scenes :=
                     (if js_truthy (next_scene_suggestion a)
                         \<and> \<not> str_includes (prompt (scenes (template e) ! index)) ''[CONTINUITY]''
                      then (scenes (template e))[index := (scenes (template e) ! index)
                             \<lparr>prompt := ''[CONTINUITY: '' @ js_or (next_scene_suggestion a) [] @ ''] ''
                                          @ prompt (scenes (template e) ! index)\<rparr>]
                      else scenes (template e))\<rparr>\<rparr>)"
  using assms
  by (auto simp: onAnalysisComplete_def updateScene_def js_or_def js_truthy_def Let_def
      split: option.splits)

lemma renumber_ids: "map scene_id (renumber xs) = [0..<length xs]"
proof -
  have "map scene_id (renumber xs) = map fst (enumerate 0 xs)"
    by (simp add: renumber_def case_prod_unfold comp_def)
  then show ?thesis by simp
qed

lemma length_renumber: "length (renumber xs) = length xs"
  by (simp add: renumber_def)

lemma removeScene_contiguous: "ordinals_contiguous (removeScene index t)"
  using renumber_ids [of "map snd (filter (\<lambda>(i, _). i \<noteq> index) (enumerate 0 (scenes t)))"]
  by (simp add: ordinals_contiguous_def removeScene_def Let_def length_renumber)

lemma addScene_contiguous: "ordinals_contiguous t \<Longrightarrow> ordinals_contiguous (addScene t)"
  by (simp add: ordinals_contiguous_def addScene_def Let_def)

lemma apply_scene_op_contiguous:
  "ordinals_contiguous t \<Longrightarrow> ordinals_contiguous (apply_scene_op t x)"
  by (cases x) (simp_all add: addScene_contiguous removeScene_contiguous)

lemma foldl_contiguous:
  "ordinals_contiguous t \<Longrightarrow> ordinals_contiguous (foldl apply_scene_op t ops)"
  by (induction ops arbitrary: t) (simp_all add: apply_scene_op_contiguous)

lemma initial_contiguous: "ordinals_contiguous initial_template"
  by (simp add: ordinals_contiguous_def initial_template_def)

lemma contiguous_nth:
  "ordinals_contiguous t \<Longrightarrow> i < length (scenes t) \<Longrightarrow> scene_id (scenes t ! i) = i"
proof -
  assume a: "ordinals_contiguous t" and i: "i < length (scenes t)"
  have "scene_id (scenes t ! i) = map scene_id (scenes t) ! i" using i by simp
  also have "\<dots> = [0..<length (scenes t)] ! i" using a by (simp add: ordinals_contiguous_def)
  also have "\<dots> = i" using i by simp
  finally show ?thesis .
qed

lemma applyOptimization_Some:
  assumes "optimizationPreview e = Some pv" and "sceneIndex pv < length (scenes (template e))"
  shows "applyOptimization e =
           Some (e\<lparr>template := (template e)\<lparr>scenes := (scenes (template e))[sceneIndex pv :=
                     (scenes (template e) ! sceneIndex pv)
                       \<lparr>prompt := js_or (action (optimizedData pv))
                                    (js_or (optimized_action (optimizedData pv))
                                       (prompt (scenes (template e) ! sceneIndex pv))),
                        emotion := js_or (opt_emotion (optimizedData pv))
                                     (js_or (optimized_emotion (optimizedData pv))
                                        (emotion (scenes (template e) ! sceneIndex pv)))\<rparr>]\<rparr>,
                   optimizationPreview := None, optimizingScene := None\<rparr>)"
  using assms by (simp add: applyOptimization_def Let_def)

lemma handleOptimize_template: "template (fst (handleOptimize index outcome e)) = template e"
  by (simp add: handleOptimize_def Let_def split: option.splits fetched.splits)

lemma applyOptimization_no_preview:
  "optimizationPreview e = None \<Longrightarrow> applyOptimization e = Some e"
  by (simp add: applyOptimization_def)

lemma element_of_type_None: "element_of_type t es = None \<longleftrightarrow> t \<notin> element_type ` set es"
  by (auto simp: element_of_type_def find_None_iff)

lemma element_of_type_Some: "t \<in> element_type ` set es \<Longrightarrow> \<exists>p. element_of_type t es = Some p"
  using element_of_type_None [of t es] by (cases "element_of_type t es") auto

lemma compare_type_element: "w \<in> set (compare_type drifts previous current t) \<Longrightarrow> warning_element w = t"
  by (auto simp: compare_type_def split: option.splits if_splits)

lemma compare_type_high:
  "filter (\<lambda>w. warning_level w = HIGH) (compare_type drifts previous current t)
     = (if t \<in> element_type ` set previous \<and> t \<notin> element_type ` set current
        then [\<lparr>warning_level = HIGH, warning_element = t,
               warning_message = ''element absent in current scene''\<rparr>]
        else [])"
proof (cases "element_of_type t previous")
  case None
  then show ?thesis
    using element_of_type_None [of t previous] by (simp add: compare_type_def)
next
  case (Some p)
  then have tp: "t \<in> element_type ` set previous"
    using element_of_type_None [of t previous] by auto
  show ?thesis
  proof (cases "element_of_type t current")
    case None
    then show ?thesis
      using Some tp element_of_type_None [of t current] by (simp add: compare_type_def)
  next
    case (Some c)
    then have "t \<in> element_type ` set current"
      using element_of_type_None [of t current] by auto
    then show ?thesis
      using Some \<open>element_of_type t previous = Some p\<close> by (simp add: compare_type_def)
  qed
qed

lemma filter_concat_one:
  assumes "distinct ts" and "\<And>t' w. w \<in> set (f t') \<Longrightarrow> P w \<Longrightarrow> t' = t"
  shows "filter P (concat (map f ts)) = (if t \<in> set ts then filter P (f t) else [])"
  using assms
proof (induction ts)
  case Nil
  then show ?case by simp
next
  case (Cons a ts)
  have rest: "filter P (concat (map f ts)) = (if t \<in> set ts then filter P (f t) else [])"
    using Cons by simp
  show ?case
  proof (cases "a = t")
    case True
    then have "t \<notin> set ts" using Cons.prems(1) by simp
    then show ?thesis using True rest by simp
  next
    case False
    then have "filter P (f a) = []"
      using Cons.prems(2) [of _ a] by (auto simp: filter_empty_conv)
    then show ?thesis using False rest by simp
  qed
qed

lemma high_warnings_of_type:
  "filter (\<lambda>w. warning_level w = HIGH \<and> warning_element w = t)
     (continuity_warnings drifts previous current)
   = (if t \<in> element_type ` set previous \<and> t \<notin> element_type ` set current
      then [\<lparr>warning_level = HIGH, warning_element = t,
             warning_message = ''element absent in current scene''\<rparr>]
      else [])"
proof -
  let ?P = "\<lambda>w. warning_level w = HIGH \<and> warning_element w = t"
  have one: "filter ?P (concat (map (compare_type drifts previous current) (remdups (map element_type previous))))
          = (if t \<in> set (remdups (map element_type previous))
             then filter ?P (compare_type drifts previous current t) else [])"
    by (rule filter_concat_one) (auto dest: compare_type_element)
  have "filter ?P (compare_type drifts previous current t)
          = filter (\<lambda>w. warning_level w = HIGH) (compare_type drifts previous current t)"
    by (rule filter_cong) (auto dest: compare_type_element)
  then show ?thesis
    using one by (auto simp: continuity_warnings_def compare_type_high)
qed

lemma no_warnings_when_identical:
  assumes "\<And>d. \<not> drifts d d"
  shows "continuity_warnings drifts es es = []"
proof -
  have "compare_type drifts es es t = []" if "t \<in> element_type ` set es" for t
  proof -
    from element_of_type_Some [OF that] obtain p where "element_of_type t es = Some p" by blast
    then show ?thesis using assms by (simp add: compare_type_def)
  qed
  then show ?thesis by (auto simp: continuity_warnings_def)
qed

section \<open>Claims\<close>

subsection \<open>C1: the continuity marker is written twice\<close>

text \<open>
  Claim C1 says that the continuity prefix step is idempotent: applied to a prompt that
  already carries a continuity marker it leaves the prompt unchanged. The guard of
  \<open>onAnalysisComplete\<close> looks for the text \<open>[CONTINUITY]\<close>, while the marker it
  writes starts with \<open>[CONTINUITY: \<close>, so the guard does not see the marker. At scene
  1 with the suggestion "bottle in hand" and the prompt "she sprays the perfume", the
  first analysis writes one marker and a second analysis writes another in front.
\<close>

theorem continuity_marker_duplicated:
  "map_option (\<lambda>e. prompt (scenes (template e) ! 1))
     (onAnalysisComplete 1 continuity_analysis demo_editor)
     = Some ''[CONTINUITY: bottle in hand] she sprays the perfume''
   \<and> map_option (\<lambda>e. prompt (scenes (template e) ! 1))
       (Option.bind (onAnalysisComplete 1 continuity_analysis demo_editor)
          (onAnalysisComplete 1 continuity_analysis))
     = Some ''[CONTINUITY: bottle in hand] [CONTINUITY: bottle in hand] she sprays the perfume''"
  by code_simp

subsection \<open>C2: the validator component asks the continuity service\<close>

text \<open>
  Claim C2 says that validating two element lists performs no external service call and
  that two runs on the same lists give the same result. As stated this fails for
  \<open>validateContinuity\<close>: for the lists [bottle] and [] it sends a POST request, and
  the validation it stores differs when the service answers differently.
\<close>

theorem validateContinuity_not_pure:
  "snd (validateContinuity (Some [bottle]) (Some []) (Responded service_accepts) idle_validator)
     = [\<lparr>url = ''http://localhost:8003/api/continuity/validate'', http_method = ''POST'',
         previous_elements = [bottle], current_elements = []\<rparr>]
   \<and> validator_validation
        (fst (validateContinuity (Some [bottle]) (Some []) (Responded service_accepts) idle_validator))
     \<noteq> validator_validation
        (fst (validateContinuity (Some [bottle]) (Some []) (Responded service_warns) idle_validator))"
  by (simp add: validateContinuity_def service_accepts_def service_warns_def)

text \<open>
  Claim C2 as amended: for every pair of element lists \<open>validateContinuity\<close> sends
  exactly one POST request to the continuity service, carrying the two lists, and the
  validation it stores is the service's response, so its result is a function of the
  two lists and that response; a request that throws leaves the stored validation as it
  was.
\<close>

theorem validateContinuity_delegates:
  "validateContinuity (Some previous) (Some current) (Responded result) v
     = (v\<lparr>validator_validation := Some result, validator_loading := False\<rparr>,
        [\<lparr>url = ''http://localhost:8003/api/continuity/validate'', http_method = ''POST'',
          previous_elements = previous, current_elements = current\<rparr>])
   \<and> validateContinuity (Some previous) (Some current) (Threw err) v
     = (v\<lparr>validator_loading := False\<rparr>,
        [\<lparr>url = ''http://localhost:8003/api/continuity/validate'', http_method = ''POST'',
          previous_elements = previous, current_elements = current\<rparr>])"
  by (simp add: validateContinuity_def)

subsection \<open>C3: HIGH warnings and \<open>isValid\<close>\<close>

text \<open>
  Claim C3, on the rule of the continuity service as the spec words it. For every pair
  of element lists there is exactly one HIGH warning for each element type that is in
  the previous list and not in the current one, and HIGH warnings arise in no other way;
  \<open>isValid\<close> holds iff there is no HIGH warning; the previous list with the one
  bottle against the empty current list gives \<open>isValid = False\<close> with the one HIGH
  warning for "bottle"; and identical lists give \<open>isValid = True\<close> with no warnings,
  for every similarity test under which a description does not drift from itself.
\<close>

theorem continuity_validator_rule:
  "(\<forall>t. t \<in> element_type ` set previous \<and> t \<notin> element_type ` set current \<longrightarrow>
        filter (\<lambda>w. warning_level w = HIGH \<and> warning_element w = t)
          (report_warnings (validate_continuity drifts previous current))
        = [\<lparr>warning_level = HIGH, warning_element = t,
            warning_message = ''element absent in current scene''\<rparr>])
   \<and> (\<forall>w \<in> set (report_warnings (validate_continuity drifts previous current)).
        warning_level w = HIGH \<longrightarrow>
          warning_element w \<in> element_type ` set previous
          \<and> warning_element w \<notin> element_type ` set current)
   \<and> (isValid (validate_continuity drifts previous current) \<longleftrightarrow>
        (\<forall>w \<in> set (report_warnings (validate_continuity drifts previous current)).
           warning_level w \<noteq> HIGH))
   \<and> validate_continuity drifts
        [\<lparr>element_type = ''bottle'', element_description = ''black perfume bottle in hand''\<rparr>] []
      = \<lparr>isValid = False,
         report_warnings = [\<lparr>warning_level = HIGH, warning_element = ''bottle'',
                             warning_message = ''element absent in current scene''\<rparr>],
         report_suggestions = [''reintroduce element bottle with consistent description'']\<rparr>
   \<and> ((\<forall>d. \<not> drifts d d) \<longrightarrow>
        validate_continuity drifts es es
        = \<lparr>isValid = True, report_warnings = [], report_suggestions = []\<rparr>)"
proof -
  let ?ws = "continuity_warnings drifts previous current"
  have ws: "report_warnings (validate_continuity drifts previous current) = ?ws"
    by (simp add: validate_continuity_def Let_def)
  have p1: "\<forall>t. t \<in> element_type ` set previous \<and> t \<notin> element_type ` set current \<longrightarrow>
        filter (\<lambda>w. warning_level w = HIGH \<and> warning_element w = t) ?ws
        = [\<lparr>warning_level = HIGH, warning_element = t,
            warning_message = ''element absent in current scene''\<rparr>]"
    by (simp add: high_warnings_of_type)
  have p2: "\<forall>w \<in> set ?ws. warning_level w = HIGH \<longrightarrow>
          warning_element w \<in> element_type ` set previous
          \<and> warning_element w \<notin> element_type ` set current"
  proof (intro ballI impI)
    fix w assume w: "w \<in> set ?ws" and h: "warning_level w = HIGH"
    then have "w \<in> set (filter (\<lambda>x. warning_level x = HIGH \<and> warning_element x = warning_element w) ?ws)"
      by simp
    then show "warning_element w \<in> element_type ` set previous
          \<and> warning_element w \<notin> element_type ` set current"
      by (auto simp: high_warnings_of_type split: if_splits)
  qed
  have p3: "isValid (validate_continuity drifts previous current) \<longleftrightarrow>
        (\<forall>w \<in> set ?ws. warning_level w \<noteq> HIGH)"
    by (simp add: validate_continuity_def Let_def filter_empty_conv)
  have p4: "validate_continuity drifts
        [\<lparr>element_type = ''bottle'', element_description = ''black perfume bottle in hand''\<rparr>] []
      = \<lparr>isValid = False,
         report_warnings = [\<lparr>warning_level = HIGH, warning_element = ''bottle'',
                             warning_message = ''element absent in current scene''\<rparr>],
         report_suggestions = [''reintroduce element bottle with consistent description'']\<rparr>"
    by (simp add: validate_continuity_def continuity_warnings_def compare_type_def
        element_of_type_def Let_def)
  have p5: "(\<forall>d. \<not> drifts d d) \<longrightarrow>
        validate_continuity drifts es es
        = \<lparr>isValid = True, report_warnings = [], report_suggestions = []\<rparr>"
    by (simp add: validate_continuity_def Let_def no_warnings_when_identical)
  show ?thesis
    using p1 p2 p3 p4 p5 unfolding ws by blast
qed

theorem continuity_validator_rule_witness:
  "''bottle'' \<in> element_type ` set [bottle, \<lparr>element_type = ''table'', element_description = ''glossy''\<rparr>]
   \<and> ''bottle'' \<notin> element_type ` set [\<lparr>element_type = ''table'', element_description = ''matte''\<rparr>]
   \<and> filter (\<lambda>w. warning_level w = HIGH \<and> warning_element w = ''bottle'')
        (report_warnings (validate_continuity (\<lambda>a b. a \<noteq> b)
           [bottle, \<lparr>element_type = ''table'', element_description = ''glossy''\<rparr>]
           [\<lparr>element_type = ''table'', element_description = ''matte''\<rparr>]))
      = [\<lparr>warning_level = HIGH, warning_element = ''bottle'',
          warning_message = ''element absent in current scene''\<rparr>]
   \<and> (\<forall>d :: string. \<not> d \<noteq> d)
   \<and> validate_continuity (\<lambda>a b. a \<noteq> b) [bottle, bottle] [bottle, bottle]
      = \<lparr>isValid = True, report_warnings = [], report_suggestions = []\<rparr>"
proof -
  let ?previous = "[bottle, \<lparr>element_type = ''table'', element_description = ''glossy''\<rparr>]"
  let ?current = "[\<lparr>element_type = ''table'', element_description = ''matte''\<rparr>]"
  have present: "''bottle'' \<in> element_type ` set ?previous"
    by (simp add: bottle_def)
  have absent: "''bottle'' \<notin> element_type ` set ?current"
    by simp
  have same: "\<forall>d :: string. \<not> d \<noteq> d"
    by simp
  note rule = continuity_validator_rule
    [of ?previous ?current "\<lambda>a b. a \<noteq> b" "[bottle, bottle]"]
  from rule present absent
  have high: "filter (\<lambda>w. warning_level w = HIGH \<and> warning_element w = ''bottle'')
        (report_warnings (validate_continuity (\<lambda>a b. a \<noteq> b) ?previous ?current))
      = [\<lparr>warning_level = HIGH, warning_element = ''bottle'',
          warning_message = ''element absent in current scene''\<rparr>]"
    by blast
  from rule same
  have ident: "validate_continuity (\<lambda>a b. a \<noteq> b) [bottle, bottle] [bottle, bottle]
      = \<lparr>isValid = True, report_warnings = [], report_suggestions = []\<rparr>"
    by blast
  show ?thesis
    using present absent high same ident by blast
qed

subsection \<open>C4: the analysis is routed by the scene's position\<close>

text \<open>
  Claim C4. For the card of an existing scene: at scene 0 a non-empty
  \<open>video_prompt\<close> becomes the scene's whole prompt, whatever the prompt was, and
  \<open>next_scene_suggestion\<close> plays no part; at every scene with index at least 1 a
  non-empty \<open>next_scene_suggestion\<close> is put in front of the existing prompt as the
  bracketed marker (when the guard lets it through), the existing prompt always
  remains the end of the new prompt, and \<open>video_prompt\<close> plays no part. The analysis
  panel shows \<open>video_prompt\<close> only for the first scene and
  \<open>next_scene_suggestion\<close> only for the others.
\<close>

theorem analysis_routed_by_scene_position:
  assumes "index < length (scenes (template e))"
  shows "\<exists>e'. onAnalysisComplete index a e = Some e' \<and>
           length (scenes (template e')) = length (scenes (template e)) \<and>
           (index = 0 \<longrightarrow>
              (\<forall>v. video_prompt a = Some v \<and> v \<noteq> [] \<longrightarrow> prompt (scenes (template e') ! index) = v) \<and>
              (\<not> js_truthy (video_prompt a) \<longrightarrow> scenes (template e') = scenes (template e)) \<and>
              (\<forall>s. map_option template (onAnalysisComplete index (a\<lparr>next_scene_suggestion := s\<rparr>) e)
                     = Some (template e'))) \<and>
           (1 \<le> index \<longrightarrow>
              (\<forall>c. next_scene_suggestion a = Some c \<and> c \<noteq> []
                     \<and> \<not> str_includes (prompt (scenes (template e) ! index)) ''[CONTINUITY]''
                 \<longrightarrow> prompt (scenes (template e') ! index)
                       = ''[CONTINUITY: '' @ c @ ''] '' @ prompt (scenes (template e) ! index)) \<and>
              suffix (prompt (scenes (template e) ! index)) (prompt (scenes (template e') ! index)) \<and>
              (\<forall>v. map_option template (onAnalysisComplete index (a\<lparr>video_prompt := v\<rparr>) e)
                     = Some (template e'))) \<and>
           map fst (suggestion_items (index = 0) a)
             = (if index = 0
                then (if js_truthy (video_prompt a) then [''Prompt Generado''] else [])
                else (if js_truthy (next_scene_suggestion a)
                      then [''Sugerencia Siguiente Escena''] else []))"
proof (cases "index = 0")
  case True
  with assms have len: "0 < length (scenes (template e))" by simp
  show ?thesis
    using True len
    by (auto simp: onAnalysisComplete_first [OF len] js_or_def js_truthy_def suggestion_items_def)
next
  case False
  with assms have idx: "index < length (scenes (template e))" "0 < index" by simp_all
  show ?thesis
    using False idx
    by (auto simp: onAnalysisComplete_later [OF idx] js_or_def js_truthy_def suffix_def
        suggestion_items_def)
qed

theorem analysis_routed_by_scene_position_witness:
  "0 < length (scenes (template demo_editor))
   \<and> video_prompt product_analysis = Some ''woman with four perfume bottles''
   \<and> (\<exists>e'. onAnalysisComplete 0 product_analysis demo_editor = Some e'
          \<and> prompt (scenes (template e') ! 0) = ''woman with four perfume bottles'')
   \<and> 1 < length (scenes (template demo_editor))
   \<and> next_scene_suggestion continuity_analysis = Some ''bottle in hand''
   \<and> \<not> str_includes (prompt (scenes (template demo_editor) ! 1)) ''[CONTINUITY]''
   \<and> (\<exists>e'. onAnalysisComplete 1 continuity_analysis demo_editor = Some e'
          \<and> prompt (scenes (template e') ! 1)
              = ''[CONTINUITY: bottle in hand] she sprays the perfume'')"
proof -
  have h0: "0 < length (scenes (template demo_editor))" by code_simp
  have v0: "video_prompt product_analysis = Some ''woman with four perfume bottles''"
    by (simp add: product_analysis_def)
  have h1: "1 < length (scenes (template demo_editor))" by code_simp
  have s1: "next_scene_suggestion continuity_analysis = Some ''bottle in hand''"
    by (simp add: continuity_analysis_def)
  have p1: "prompt (scenes (template demo_editor) ! 1) = ''she sprays the perfume''"
    by code_simp
  have g1: "\<not> str_includes (prompt (scenes (template demo_editor) ! 1)) ''[CONTINUITY]''"
    by code_simp
  from analysis_routed_by_scene_position [OF h0, of product_analysis] v0
  have first: "\<exists>e'. onAnalysisComplete 0 product_analysis demo_editor = Some e'
          \<and> prompt (scenes (template e') ! 0) = ''woman with four perfume bottles''"
    by auto
  from analysis_routed_by_scene_position [OF h1, of continuity_analysis] s1 g1
  have "\<exists>e'. onAnalysisComplete 1 continuity_analysis demo_editor = Some e'
          \<and> prompt (scenes (template e') ! 1)
              = ''[CONTINUITY: '' @ ''bottle in hand'' @ ''] ''
                @ prompt (scenes (template demo_editor) ! 1)"
    by auto
  then have later: "\<exists>e'. onAnalysisComplete 1 continuity_analysis demo_editor = Some e'
          \<and> prompt (scenes (template e') ! 1)
              = ''[CONTINUITY: bottle in hand] she sprays the perfume''"
    using p1 by auto
  show ?thesis
    using h0 v0 first h1 s1 g1 later by blast
qed

subsection \<open>C5: image context only for the first scene\<close>

text \<open>
  Claim C5. The request \<open>handleOptimize\<close> sends for an existing scene carries as
  image context the analysis stored for scene 0 when the scene is scene 0 (none when
  no analysis is stored), and no image context for every scene with index at least 1,
  whatever analyses are stored.
\<close>

theorem image_context_first_scene_only:
  assumes "index < length (scenes (template e))"
  shows "\<exists>r. optimizationRequest e index = Some r \<and>
           fst (snd (handleOptimize index outcome e)) = [r] \<and>
           image_context r = (if index = 0 then imageAnalysis e 0 else None) \<and>
           (1 \<le> index \<longrightarrow> image_context r = None)"
  using assms
  by (auto simp: optimizationRequest_def handleOptimize_def Let_def split: fetched.splits)

theorem image_context_first_scene_only_witness:
  "1 < length (scenes (template analysed_editor))
   \<and> imageAnalysis analysed_editor 1 = Some continuity_analysis
   \<and> (\<exists>r. optimizationRequest analysed_editor 1 = Some r \<and> image_context r = None)
   \<and> 0 < length (scenes (template analysed_editor))
   \<and> (\<exists>r. optimizationRequest analysed_editor 0 = Some r
          \<and> image_context r = Some product_analysis)"
proof -
  have h1: "1 < length (scenes (template analysed_editor))" by code_simp
  have h0: "0 < length (scenes (template analysed_editor))" by code_simp
  have a1: "imageAnalysis analysed_editor 1 = Some continuity_analysis"
    by (simp add: analysed_editor_def)
  have a0: "imageAnalysis analysed_editor 0 = Some product_analysis"
    by (simp add: analysed_editor_def)
  from image_context_first_scene_only [OF h1]
  have later: "\<exists>r. optimizationRequest analysed_editor 1 = Some r \<and> image_context r = None"
    by auto
  from image_context_first_scene_only [OF h0] a0
  have first: "\<exists>r. optimizationRequest analysed_editor 0 = Some r
          \<and> image_context r = Some product_analysis"
    by auto
  show ?thesis
    using h1 a1 later h0 first by blast
qed

subsection \<open>C6: scene ordinals are the list positions\<close>

text \<open>
  Claim C6. Starting from the editor's initial template, or from any template whose
  scene ids are their positions, after any sequence of add-scene and remove-scene
  operations the scene ids are exactly 0, 1, ..., n - 1 in order: every scene's
  \<open>scene_id\<close> is its index, and no id occurs twice.
\<close>

theorem scene_ordinals_contiguous:
  assumes "t = initial_template \<or> ordinals_contiguous t"
  shows "map scene_id (scenes (foldl apply_scene_op t ops))
           = [0..<length (scenes (foldl apply_scene_op t ops))]
         \<and> (\<forall>i < length (scenes (foldl apply_scene_op t ops)).
              scene_id (scenes (foldl apply_scene_op t ops) ! i) = i)
         \<and> distinct (map scene_id (scenes (foldl apply_scene_op t ops)))"
proof -
  from assms have "ordinals_contiguous t" using initial_contiguous by auto
  then have c: "ordinals_contiguous (foldl apply_scene_op t ops)" by (rule foldl_contiguous)
  then have m: "map scene_id (scenes (foldl apply_scene_op t ops))
           = [0..<length (scenes (foldl apply_scene_op t ops))]"
    by (simp add: ordinals_contiguous_def)
  have d: "distinct (map scene_id (scenes (foldl apply_scene_op t ops)))"
    by (subst m) simp
  show ?thesis using m d contiguous_nth [OF c] by blast
qed

theorem scene_ordinals_contiguous_witness:
  "map scene_id
     (scenes (foldl apply_scene_op initial_template
                [AddScene, AddScene, AddScene, RemoveScene 0, AddScene]))
   = [0, 1, 2]"
proof -
  have n: "length (scenes (foldl apply_scene_op initial_template
                [AddScene, AddScene, AddScene, RemoveScene 0, AddScene])) = 3"
    by code_simp
  have u: "[0..<3] = [0, 1, 2::nat]"
    by code_simp
  have h: "initial_template = initial_template \<or> ordinals_contiguous initial_template"
    by simp
  from scene_ordinals_contiguous
    [OF h, of "[AddScene, AddScene, AddScene, RemoveScene 0, AddScene]"]
  have "map scene_id
     (scenes (foldl apply_scene_op initial_template
                [AddScene, AddScene, AddScene, RemoveScene 0, AddScene]))
   = [0..<length (scenes (foldl apply_scene_op initial_template
                [AddScene, AddScene, AddScene, RemoveScene 0, AddScene]))]"
    by blast
  then show ?thesis
    unfolding n u .
qed

subsection \<open>C7: production starts from a draft with scenes\<close>

text \<open>
  Claim C7. \<open>handleSubmit\<close> rejects a template with no name or no scene without
  calling \<open>createProject\<close>, so every project it creates has a name and at least one
  scene; the dashboard offers the start-production action exactly for the projects
  whose status is draft; and \<open>produce\<close>, as the spec words its precondition, fails
  with \<open>InvalidProjectState\<close> on every project that is not a draft or has no scene,
  and starts only on a draft with at least one scene.
\<close>

theorem production_needs_draft_with_scenes:
  "(template_name t = [] \<or> scenes t = [] \<longrightarrow>
      handleSubmit t outcome = \<lparr>alert = CompleteNameAndScenes, created = [], navigated = None\<rparr>)
   \<and> (created (handleSubmit t outcome) \<noteq> [] \<longrightarrow> template_name t \<noteq> [] \<and> 1 \<le> length (scenes t))
   \<and> (StartProduction \<in> set (project_actions p) \<longleftrightarrow> status p = ''draft'')
   \<and> (\<not> (status p = ''draft'' \<and> 1 \<le> scene_count p) \<longrightarrow> produce_start p = Inl InvalidProjectState)
   \<and> (\<forall>p'. produce_start p = Inr p' \<longrightarrow> status p = ''draft'' \<and> 1 \<le> scene_count p)"
  by (auto simp: handleSubmit_def project_actions_def produce_start_def Suc_le_eq split: fetched.splits)

theorem production_needs_draft_with_scenes_witness:
  "scenes initial_template = []
   \<and> handleSubmit initial_template (Responded ())
      = \<lparr>alert = CompleteNameAndScenes, created = [], navigated = None\<rparr>
   \<and> status (draft_project\<lparr>status := ''completed''\<rparr>) \<noteq> ''draft''
   \<and> StartProduction \<notin> set (project_actions (draft_project\<lparr>status := ''completed''\<rparr>))
   \<and> produce_start (draft_project\<lparr>status := ''completed''\<rparr>) = Inl InvalidProjectState
   \<and> scene_count (draft_project\<lparr>project_scenes := Some []\<rparr>) = 0
   \<and> produce_start (draft_project\<lparr>project_scenes := Some []\<rparr>) = Inl InvalidProjectState"
proof -
  have e: "scenes initial_template = []"
    by (simp add: initial_template_def)
  have c: "status (draft_project\<lparr>status := ''completed''\<rparr>) \<noteq> ''draft''"
    by simp
  have z: "scene_count (draft_project\<lparr>project_scenes := Some []\<rparr>) = 0"
    by (simp add: scene_count_def)
  from production_needs_draft_with_scenes
    [of initial_template "Responded ()" "draft_project\<lparr>status := ''completed''\<rparr>"] e c
  have a: "handleSubmit initial_template (Responded ())
      = \<lparr>alert = CompleteNameAndScenes, created = [], navigated = None\<rparr>"
    and b: "StartProduction \<notin> set (project_actions (draft_project\<lparr>status := ''completed''\<rparr>))"
    and d: "produce_start (draft_project\<lparr>status := ''completed''\<rparr>) = Inl InvalidProjectState"
    by blast+
  from production_needs_draft_with_scenes
    [of initial_template "Responded ()" "draft_project\<lparr>project_scenes := Some []\<rparr>"] z
  have f: "produce_start (draft_project\<lparr>project_scenes := Some []\<rparr>) = Inl InvalidProjectState"
    by simp
  show ?thesis
    using e a c b d z f by blast
qed

subsection \<open>C8: a failed analysis changes nothing in the scene\<close>

text \<open>
  Claim C8. When the analysis request throws, or its response has \<open>ok\<close> false
  (\<open>analysis_failed\<close>), \<open>analyzeFrame\<close> sets a non-empty error message, does not invoke the
  analysis-complete callback, and returns the parent's state (the template with the
  scene's prompt, and the stored analyses) as it was, for every callback and in
  particular for the editor's \<open>onAnalysisComplete\<close>; the uploader's own analysis is
  unchanged as well.
\<close>

theorem analysis_failure_is_atomic:
  assumes "analysis_failed outcome"
  shows "\<exists>u' msg. analyzeFrame callback outcome (u, p) = Some (u', p, [])
           \<and> error u' = Some msg \<and> msg \<noteq> []
           \<and> analysis u' = analysis u \<and> \<not> isAnalyzing u'"
  using assms
  by (cases outcome)
    (auto simp: analysis_failed_def analyzeFrame_def js_or_def Let_def split: option.splits)

theorem analysis_failure_is_atomic_witness:
  "analysis_failed (Responded failed_analysis)
   \<and> analyzeFrame (Some (onAnalysisComplete 1)) (Responded failed_analysis)
        (idle_uploader, demo_editor)
      = Some (idle_uploader\<lparr>error := Some ''quota exceeded''\<rparr>, demo_editor, [])
   \<and> analysis_failed (Threw ''Failed to fetch'')
   \<and> analyzeFrame (Some (onAnalysisComplete 1)) (Threw ''Failed to fetch'')
        (idle_uploader, demo_editor)
      = Some (idle_uploader\<lparr>error := Some ''Error: Failed to fetch''\<rparr>, demo_editor, [])"
proof -
  have n: "analysis_failed (Responded failed_analysis)"
    by (simp add: analysis_failed_def failed_analysis_def)
  have m: "analysis_failed (Threw ''Failed to fetch'')"
    by (simp add: analysis_failed_def)
  from analysis_failure_is_atomic [OF n, of "Some (onAnalysisComplete 1)" idle_uploader demo_editor]
  obtain u' where r: "analyzeFrame (Some (onAnalysisComplete 1)) (Responded failed_analysis)
        (idle_uploader, demo_editor) = Some (u', demo_editor, [])"
    by auto
  have "map_option fst (analyzeFrame (Some (onAnalysisComplete 1)) (Responded failed_analysis)
        (idle_uploader, demo_editor)) = Some (idle_uploader\<lparr>error := Some ''quota exceeded''\<rparr>)"
    by (simp add: analyzeFrame_def failed_analysis_def idle_uploader_def js_or_def)
  with r have a: "analyzeFrame (Some (onAnalysisComplete 1)) (Responded failed_analysis)
        (idle_uploader, demo_editor)
      = Some (idle_uploader\<lparr>error := Some ''quota exceeded''\<rparr>, demo_editor, [])"
    by simp
  from analysis_failure_is_atomic [OF m, of "Some (onAnalysisComplete 1)" idle_uploader demo_editor]
  obtain u'' where t: "analyzeFrame (Some (onAnalysisComplete 1)) (Threw ''Failed to fetch'')
        (idle_uploader, demo_editor) = Some (u'', demo_editor, [])"
    by auto
  have "map_option fst (analyzeFrame (Some (onAnalysisComplete 1)) (Threw ''Failed to fetch'')
        (idle_uploader, demo_editor))
      = Some (idle_uploader\<lparr>error := Some ''Error: Failed to fetch''\<rparr>)"
    by (simp add: analyzeFrame_def idle_uploader_def)
  with t have b: "analyzeFrame (Some (onAnalysisComplete 1)) (Threw ''Failed to fetch'')
        (idle_uploader, demo_editor)
      = Some (idle_uploader\<lparr>error := Some ''Error: Failed to fetch''\<rparr>, demo_editor, [])"
    by simp
  show ?thesis
    using n a m b by blast
qed

subsection \<open>C9: accepting an optimization touches the prompt and the emotion only\<close>

text \<open>
  Claim C9. When the preview of scene \<open>sceneIndex\<close> is accepted, the scene list keeps
  its length, every other scene is unchanged, and in every scene the dialogue, name,
  duration, camera movement and lighting (and the id, voice and reference images) are
  unchanged; the rest of the template and the stored analyses are unchanged; and the
  resulting template does not depend on the optimized dialogue of the preview.
\<close>

theorem applyOptimization_frame:
  assumes "optimizationPreview e = Some pv" and "sceneIndex pv < length (scenes (template e))"
  shows "\<exists>e'. applyOptimization e = Some e' \<and>
           length (scenes (template e')) = length (scenes (template e)) \<and>
           (\<forall>j < length (scenes (template e)).
              (j \<noteq> sceneIndex pv \<longrightarrow> scenes (template e') ! j = scenes (template e) ! j) \<and>
              dialogue (scenes (template e') ! j) = dialogue (scenes (template e) ! j) \<and>
              name (scenes (template e') ! j) = name (scenes (template e) ! j) \<and>
              duration (scenes (template e') ! j) = duration (scenes (template e) ! j) \<and>
              camera_movement (scenes (template e') ! j) = camera_movement (scenes (template e) ! j) \<and>
              lighting (scenes (template e') ! j) = lighting (scenes (template e) ! j) \<and>
              scene_id (scenes (template e') ! j) = scene_id (scenes (template e) ! j) \<and>
              voice_gender (scenes (template e') ! j) = voice_gender (scenes (template e) ! j) \<and>
              reference_images (scenes (template e') ! j) = reference_images (scenes (template e) ! j)) \<and>
           template e' = (template e)\<lparr>scenes := scenes (template e')\<rparr> \<and>
           imageAnalysis e' = imageAnalysis e \<and>
           (\<forall>d. map_option template
                  (applyOptimization
                     (e\<lparr>optimizationPreview := Some (pv\<lparr>optimizedData := (optimizedData pv)\<lparr>opt_dialogue := d\<rparr>,
                                                        preview_optimized := (preview_optimized pv)\<lparr>opt_dialogue := d\<rparr>\<rparr>)\<rparr>))
                = Some (template e'))"
  by (simp add: applyOptimization_Some [OF assms] applyOptimization_def Let_def assms nth_list_update)

theorem applyOptimization_frame_witness:
  "optimizationPreview (fst (handleOptimize 1 (Responded optimizer_reply) demo_editor))
     = Some accepted_preview
   \<and> sceneIndex accepted_preview
       < length (scenes (template (fst (handleOptimize 1 (Responded optimizer_reply) demo_editor))))
   \<and> (\<exists>e'. applyOptimization (fst (handleOptimize 1 (Responded optimizer_reply) demo_editor))
             = Some e'
          \<and> scenes (template e') ! 0 = scenes demo_template ! 0
          \<and> dialogue (scenes (template e') ! 1) = None
          \<and> name (scenes (template e') ! 1) = ''Scene 2'')"
proof -
  let ?e = "fst (handleOptimize 1 (Responded optimizer_reply) demo_editor)"
  have t: "template ?e = demo_template"
    by (simp add: handleOptimize_template demo_editor_def)
  have pv: "optimizationPreview ?e = Some accepted_preview"
    by code_simp
  have i: "sceneIndex accepted_preview = 1"
    by (simp add: accepted_preview_def)
  have len: "length (scenes demo_template) = 2"
    by code_simp
  have idx: "sceneIndex accepted_preview < length (scenes (template ?e))"
    unfolding t i len by simp
  have d1: "dialogue (scenes demo_template ! 1) = None"
    by code_simp
  have n1: "name (scenes demo_template ! 1) = ''Scene 2''"
    by code_simp
  from applyOptimization_frame [OF pv idx]
  obtain e' where r: "applyOptimization ?e = Some e'"
    and other: "\<forall>j < length (scenes (template ?e)).
              (j \<noteq> sceneIndex accepted_preview \<longrightarrow>
                 scenes (template e') ! j = scenes (template ?e) ! j) \<and>
              dialogue (scenes (template e') ! j) = dialogue (scenes (template ?e) ! j) \<and>
              name (scenes (template e') ! j) = name (scenes (template ?e) ! j)"
    by blast
  from other have "scenes (template e') ! 0 = scenes demo_template ! 0"
    and "dialogue (scenes (template e') ! 1) = None"
    and "name (scenes (template e') ! 1) = ''Scene 2''"
    unfolding t i len using d1 n1 by simp_all
  with r pv idx show ?thesis
    by blast
qed

subsection \<open>C10: accepting an optimization keeps existing text\<close>

text \<open>
  Claim C10. When the preview is accepted and the optimizer's data has no non-empty
  \<open>action\<close> or \<open>optimized_action\<close>, the scene keeps its prompt; when it has no
  non-empty \<open>emotion\<close> or \<open>optimized_emotion\<close>, the scene keeps its emotion; and no
  scene whose prompt was non-empty has an empty prompt afterwards.
\<close>

theorem applyOptimization_keeps_text:
  assumes "optimizationPreview e = Some pv" and "sceneIndex pv < length (scenes (template e))"
  shows "\<exists>e'. applyOptimization e = Some e' \<and>
           (\<not> js_truthy (action (optimizedData pv)) \<and> \<not> js_truthy (optimized_action (optimizedData pv))
              \<longrightarrow> prompt (scenes (template e') ! sceneIndex pv) = prompt (scenes (template e) ! sceneIndex pv)) \<and>
           (\<not> js_truthy (opt_emotion (optimizedData pv)) \<and> \<not> js_truthy (optimized_emotion (optimizedData pv))
              \<longrightarrow> emotion (scenes (template e') ! sceneIndex pv) = emotion (scenes (template e) ! sceneIndex pv)) \<and>
           (\<forall>j < length (scenes (template e)).
              prompt (scenes (template e) ! j) \<noteq> [] \<longrightarrow> prompt (scenes (template e') ! j) \<noteq> [])"
  using assms
  by (auto simp: applyOptimization_Some [OF assms] js_or_def js_truthy_def nth_list_update
      split: option.splits)

theorem applyOptimization_keeps_text_witness:
  "optimizationPreview (fst (handleOptimize 1 (Responded empty_reply) demo_editor))
     = Some retained_preview
   \<and> sceneIndex retained_preview
       < length (scenes (template (fst (handleOptimize 1 (Responded empty_reply) demo_editor))))
   \<and> \<not> js_truthy (action (optimizedData retained_preview))
   \<and> \<not> js_truthy (optimized_action (optimizedData retained_preview))
   \<and> (\<exists>e'. applyOptimization (fst (handleOptimize 1 (Responded empty_reply) demo_editor))
             = Some e'
          \<and> prompt (scenes (template e') ! 1) = ''she sprays the perfume'')"
proof -
  let ?e = "fst (handleOptimize 1 (Responded empty_reply) demo_editor)"
  have t: "template ?e = demo_template"
    by (simp add: handleOptimize_template demo_editor_def)
  have pv: "optimizationPreview ?e = Some retained_preview"
    by code_simp
  have i: "sceneIndex retained_preview = 1"
    by (simp add: retained_preview_def)
  have len: "length (scenes demo_template) = 2"
    by code_simp
  have idx: "sceneIndex retained_preview < length (scenes (template ?e))"
    unfolding t i len by simp
  have a1: "\<not> js_truthy (action (optimizedData retained_preview))"
    by (simp add: retained_preview_def empty_reply_def js_truthy_def)
  have a2: "\<not> js_truthy (optimized_action (optimizedData retained_preview))"
    by (simp add: retained_preview_def empty_reply_def js_truthy_def)
  have p1: "prompt (scenes demo_template ! 1) = ''she sprays the perfume''"
    by code_simp
  from applyOptimization_keeps_text [OF pv idx] a1 a2
  obtain e' where r: "applyOptimization ?e = Some e'"
    and "prompt (scenes (template e') ! sceneIndex retained_preview)
           = prompt (scenes (template ?e) ! sceneIndex retained_preview)"
    by blast
  then have "prompt (scenes (template e') ! 1) = ''she sprays the perfume''"
    unfolding t i using p1 by simp
  with r pv idx a1 a2 show ?thesis
    by blast
qed

end
